theory Spec2Isabelle
  imports Main "HOL-Library.Word"
begin

section \<open>The souphttpsink element (ext/soup/gstsouphttpsink.c)\<close>

text \<open>
  The element queues the buffers it is given and uploads them with HTTP PUT requests,
  one request at a time. Its functions are embedded as functions on a record of the
  element's state. Two threads call them (the streaming thread and the thread of the
  main loop); every function below runs with the element's mutex held or, for
  \<open>render\<close>'s first test, reads one field, so a run of the element is an interleaving
  of whole calls.
\<close>

subsection \<open>Data\<close>

type_synonym guint8 = "8 word"
type_synonym guint64 = "64 word"

text \<open>
  A \<open>GstBuffer\<close>: \<open>GST_BUFFER_DATA\<close> is the byte sequence, \<open>GST_BUFFER_SIZE\<close> its
  length (a \<open>guint\<close>, added to the 64-bit \<open>n\<close> of dispatch), and \<open>in_caps\<close> is the flag
  \<open>GST_BUFFER_FLAG_IN_CAPS\<close>.
\<close>

record GstBuffer =
  data :: "guint8 list"
  in_caps :: bool

definition GST_BUFFER_SIZE :: "GstBuffer \<Rightarrow> nat" where
  "GST_BUFFER_SIZE buffer = length (data buffer)"

text \<open>
  A \<open>SoupMessage\<close> as this file uses it: the method and URI given to
  \<open>soup_message_new\<close>, the request body built by \<open>soup_message_body_append\<close> and the
  request headers added by \<open>soup_message_headers_append\<close>, in the order added.
\<close>

record SoupMessage =
  http_method :: string
  uri :: string
  request_body :: "guint8 list"
  request_headers :: "(string \<times> string) list"

definition soup_message_new :: "string \<Rightarrow> string \<Rightarrow> SoupMessage" where
  "soup_message_new m u =
     \<lparr>http_method = m, uri = u, request_body = [], request_headers = []\<rparr>"

definition soup_message_body_append :: "guint8 list \<Rightarrow> SoupMessage \<Rightarrow> SoupMessage" where
  "soup_message_body_append bytes msg = msg\<lparr>request_body := request_body msg @ bytes\<rparr>"

definition soup_message_headers_append :: "string \<Rightarrow> string \<Rightarrow> SoupMessage \<Rightarrow> SoupMessage" where
  "soup_message_headers_append name v msg =
     msg\<lparr>request_headers := request_headers msg @ [(name, v)]\<rparr>"

text \<open>\<open>SOUP_STATUS_IS_SUCCESSFUL\<close> of libsoup: the 2xx status codes.\<close>

definition SOUP_STATUS_IS_SUCCESSFUL :: "nat \<Rightarrow> bool" where
  "SOUP_STATUS_IS_SUCCESSFUL status \<longleftrightarrow> 200 \<le> status \<and> status < 300"

datatype GstFlowReturn = GST_FLOW_OK | GST_FLOW_ERROR

datatype GstEventType = GST_EVENT_EOS | GST_EVENT_OTHER

text \<open>
  The element. The first eight fields are the fields of \<open>GstSoupHttpSink\<close> that the
  upload engine reads and writes (a \<open>GList\<close> is a list, \<open>NULL\<close> the empty list; a
  nullable string or pointer is an option). The other fields are the state of the
  objects the element talks to, as far as the element changes it:
  \<^item> \<open>session\<close>: the messages handed to \<open>soup_session_queue_message\<close> whose callback
    has not run yet, oldest first;
  \<^item> \<open>handed\<close>: every message ever handed to \<open>soup_session_queue_message\<close>, oldest
    first;
  \<^item> \<open>idle_sources\<close>: the idle sources attached to the main context that have not
    run yet (each calls \<open>send_message\<close> once);
  \<^item> \<open>unreffed\<close>: the buffers given to \<open>gst_buffer_unref\<close>, in call order;
  \<^item> \<open>posted\<close>: the status code and reason of every \<open>GST_ELEMENT_ERROR\<close> posted;
  \<^item> \<open>cond_signals\<close>: the number of calls of \<open>g_cond_signal\<close>;
  \<^item> \<open>prop_session\<close>: whether the application supplied the session (property
    \<open>session\<close>).
\<close>

record GstSoupHttpSink =
  location :: "string option"
  streamheader_buffers :: "GstBuffer list"
  queued_buffers :: "GstBuffer list"
  sent_buffers :: "GstBuffer list"
  message :: "SoupMessage option"
  status_code :: nat
  reason_phrase :: "string option"
  offset :: guint64
  prop_session :: bool
  session :: "SoupMessage list"
  handed :: "SoupMessage list"
  idle_sources :: nat
  unreffed :: "GstBuffer list"
  posted :: "(nat \<times> string option) list"
  cond_signals :: nat

subsection \<open>Printing a 64-bit unsigned integer\<close>

text \<open>\<open>G_GUINT64_FORMAT\<close> in \<open>g_strdup_printf\<close>: the decimal digits, no padding.\<close>

definition digit :: "nat \<Rightarrow> char" where
  "digit d = ''0123456789'' ! d"

fun decimal :: "nat \<Rightarrow> string" where
  "decimal n =
     (if n < 10 then [digit n]
      else decimal (n div 10) @ [digit (n mod 10)])"

declare decimal.simps [simp del]

definition content_range :: "guint64 \<Rightarrow> guint64 \<Rightarrow> string" where
  "content_range off n =
     ''bytes '' @ decimal (unat off) @ ''-'' @ decimal (unat (off + n - 1)) @ ''/*''"

subsection \<open>Initialisation, reset, properties\<close>

definition gst_soup_http_sink_reset :: "GstSoupHttpSink \<Rightarrow> GstSoupHttpSink" where
  "gst_soup_http_sink_reset s = s\<lparr>reason_phrase := None, status_code := 0, offset := 0\<rparr>"

definition gst_soup_http_sink_init :: GstSoupHttpSink where
  "gst_soup_http_sink_init =
     gst_soup_http_sink_reset
       \<lparr>location = None, streamheader_buffers = [], queued_buffers = [],
        sent_buffers = [], message = None, status_code = 0, reason_phrase = None,
        offset = 0, prop_session = False, session = [], handed = [], idle_sources = 0,
        unreffed = [], posted = [], cond_signals = 0\<rparr>"

text \<open>
  The properties: \<open>location\<close> and \<open>session\<close> change the state above; the others
  (\<open>user-agent\<close>, \<open>automatic-redirect\<close>, \<open>user-id\<close>, \<open>user-pw\<close>, \<open>proxy-id\<close>, \<open>proxy-pw\<close>)
  write fields the upload engine never reads.
\<close>

datatype property = PROP_LOCATION "string option" | PROP_SESSION bool | PROP_OTHER

fun gst_soup_http_sink_set_property :: "property \<Rightarrow> GstSoupHttpSink \<Rightarrow> GstSoupHttpSink" where
  "gst_soup_http_sink_set_property (PROP_SESSION given) s = s\<lparr>prop_session := given\<rparr>"
| "gst_soup_http_sink_set_property (PROP_LOCATION v) s = s\<lparr>location := v, offset := 0\<rparr>"
| "gst_soup_http_sink_set_property PROP_OTHER s = s"

subsection \<open>Buffer lists\<close>

definition gst_buffer_unref :: "GstBuffer \<Rightarrow> GstSoupHttpSink \<Rightarrow> GstSoupHttpSink" where
  "gst_buffer_unref buffer s = s\<lparr>unreffed := unreffed s @ [buffer]\<rparr>"

fun free_buffer_list :: "GstBuffer list \<Rightarrow> GstSoupHttpSink \<Rightarrow> GstSoupHttpSink" where
  "free_buffer_list [] s = s"
| "free_buffer_list (buffer # g) s = free_buffer_list g (gst_buffer_unref buffer s)"

text \<open>
  \<open>set_caps\<close>: the argument is the value of the field \<open>streamheader\<close> of the caps'
  first structure, \<open>None\<close> when the caps have no such field.
\<close>

fun gst_soup_http_sink_set_caps :: "GstBuffer list option \<Rightarrow> GstSoupHttpSink \<Rightarrow> GstSoupHttpSink" where
  "gst_soup_http_sink_set_caps None s = s"
| "gst_soup_http_sink_set_caps (Some value_array) s =
     (free_buffer_list (streamheader_buffers s) s)\<lparr>streamheader_buffers := value_array\<rparr>"

subsection \<open>Dispatch\<close>

text \<open>
  The two loops of \<open>send_message_locked\<close> that fill the request body and add up
  \<open>n\<close>: the first over the stream headers, the second over the queued buffers that do
  not carry \<open>GST_BUFFER_FLAG_IN_CAPS\<close>. The pair is the message and \<open>n\<close>.
\<close>

fun append_streamheaders :: "GstBuffer list \<Rightarrow> SoupMessage \<times> guint64 \<Rightarrow> SoupMessage \<times> guint64" where
  "append_streamheaders [] (msg, n) = (msg, n)"
| "append_streamheaders (buffer # g) (msg, n) =
     append_streamheaders g
       (soup_message_body_append (data buffer) msg, n + of_nat (GST_BUFFER_SIZE buffer))"

fun append_queued :: "GstBuffer list \<Rightarrow> SoupMessage \<times> guint64 \<Rightarrow> SoupMessage \<times> guint64" where
  "append_queued [] (msg, n) = (msg, n)"
| "append_queued (buffer # g) (msg, n) =
     (if \<not> in_caps buffer
      then append_queued g
        (soup_message_body_append (data buffer) msg, n + of_nat (GST_BUFFER_SIZE buffer))
      else append_queued g (msg, n))"

text \<open>
  The message \<open>send_message_locked\<close> builds for the location \<open>loc\<close>, with its \<open>n\<close>:
  the body, then the header \<open>Content-Range\<close> when the offset is not 0.
\<close>

definition build_message :: "string \<Rightarrow> GstSoupHttpSink \<Rightarrow> SoupMessage \<times> guint64" where
  "build_message loc s =
     (let start = (soup_message_new ''PUT'' loc, 0);
          with_headers =
            (if offset s = 0 then append_streamheaders (streamheader_buffers s) start
             else start);
          (msg, n) = append_queued (queued_buffers s) with_headers
      in (if offset s \<noteq> 0
          then soup_message_headers_append ''Content-Range'' (content_range (offset s) n) msg
          else msg, n))"

definition send_message_locked :: "GstSoupHttpSink \<Rightarrow> GstSoupHttpSink" where
  "send_message_locked s =
     (if queued_buffers s = [] \<or> message s \<noteq> None then s
      else case location s of
        None \<Rightarrow> (free_buffer_list (queued_buffers s) s)\<lparr>queued_buffers := []\<rparr>
      | Some loc \<Rightarrow>
          (let (msg, n) = build_message loc s
           in if n = 0
              then (free_buffer_list (queued_buffers s) s)
                     \<lparr>queued_buffers := [], message := None\<rparr>
              else s\<lparr>message := Some msg,
                     sent_buffers := queued_buffers s,
                     queued_buffers := [],
                     session := session s @ [msg],
                     handed := handed s @ [msg],
                     offset := offset s + n\<rparr>))"

text \<open>\<open>send_message\<close>, the function of an idle source: it runs once and is removed.\<close>

definition send_message :: "GstSoupHttpSink \<Rightarrow> GstSoupHttpSink" where
  "send_message s = send_message_locked s"

subsection \<open>Completion\<close>

text \<open>
  \<open>callback\<close>, with the status code and the reason phrase of the completed message.
\<close>

definition callback :: "nat \<Rightarrow> string option \<Rightarrow> GstSoupHttpSink \<Rightarrow> GstSoupHttpSink" where
  "callback msg_status msg_reason s =
     (let s1 = s\<lparr>cond_signals := Suc (cond_signals s), message := None\<rparr>
      in if \<not> SOUP_STATUS_IS_SUCCESSFUL msg_status
         then s1\<lparr>status_code := msg_status, reason_phrase := msg_reason\<rparr>
         else send_message_locked
                ((free_buffer_list (sent_buffers s1) s1)\<lparr>sent_buffers := []\<rparr>))"

subsection \<open>Render\<close>

definition gst_soup_http_sink_render ::
    "GstBuffer \<Rightarrow> GstSoupHttpSink \<Rightarrow> GstFlowReturn \<times> GstSoupHttpSink" where
  "gst_soup_http_sink_render buffer s =
     (if status_code s \<noteq> 0
      then (GST_FLOW_ERROR, s\<lparr>posted := posted s @ [(status_code s, reason_phrase s)]\<rparr>)
      else (GST_FLOW_OK,
        case location s of
          None \<Rightarrow> s
        | Some loc \<Rightarrow>
            (let wake = (queued_buffers s = []);
                 s1 = s\<lparr>queued_buffers := queued_buffers s @ [buffer]\<rparr>
             in if wake then s1\<lparr>idle_sources := Suc (idle_sources s1)\<rparr> else s1)))"

subsection \<open>Start and stop\<close>

text \<open>
  \<open>start\<close> takes the application's session or creates a main context, a thread and
  a session of the element's own. It writes no field of the upload engine, and the
  messages already handed over stay with the session that holds them.
\<close>

definition gst_soup_http_sink_start :: "GstSoupHttpSink \<Rightarrow> GstSoupHttpSink" where
  "gst_soup_http_sink_start s = s"

text \<open>
  \<open>stop\<close>: \<open>soup_session_abort\<close> on the element's own session drops the messages the
  session holds; the function then ends the main loop and calls
  \<open>gst_soup_http_sink_reset\<close>. A callback that the session runs for a cancelled
  message is a step of its own (\<open>Completed\<close> below) before this one.
\<close>

definition gst_soup_http_sink_stop :: "GstSoupHttpSink \<Rightarrow> GstSoupHttpSink" where
  "gst_soup_http_sink_stop s =
     gst_soup_http_sink_reset (if \<not> prop_session s then s\<lparr>session := []\<rparr> else s)"

subsection \<open>Runs\<close>

text \<open>
  The calls that change the element, as events: the streaming thread and the
  application call \<open>render\<close>, \<open>set_caps\<close>, \<open>set_property\<close>, \<open>start\<close> and \<open>stop\<close>; the
  main loop runs an attached idle source (\<open>Idle\<close>) and the session completes the oldest message
  it holds and calls \<open>callback\<close> (\<open>Completed\<close>). \<open>Idle\<close> with no idle source attached
  and \<open>Completed\<close> with no message in the session cannot happen: they leave the state
  as it is.
\<close>

datatype event =
    Render GstBuffer
  | Idle
  | Completed nat "string option"
  | Set_caps "GstBuffer list option"
  | Set_property property
  | Start
  | Stop

fun step :: "event \<Rightarrow> GstSoupHttpSink \<Rightarrow> GstSoupHttpSink" where
  "step (Render buffer) s = snd (gst_soup_http_sink_render buffer s)"
| "step Idle s =
     (if idle_sources s = 0 then s
      else send_message (s\<lparr>idle_sources := idle_sources s - 1\<rparr>))"
| "step (Completed msg_status msg_reason) s =
     (case session s of
        [] \<Rightarrow> s
      | msg # rest \<Rightarrow> callback msg_status msg_reason (s\<lparr>session := rest\<rparr>))"
| "step (Set_caps v) s = gst_soup_http_sink_set_caps v s"
| "step (Set_property p) s = gst_soup_http_sink_set_property p s"
| "step Start s = gst_soup_http_sink_start s"
| "step Stop s = gst_soup_http_sink_stop s"

fun run :: "event list \<Rightarrow> GstSoupHttpSink \<Rightarrow> GstSoupHttpSink" where
  "run [] s = s"
| "run (e # es) s = run es (step e s)"

subsection \<open>End of stream\<close>

text \<open>
  \<open>gst_soup_http_sink_event\<close>. For \<open>GST_EVENT_EOS\<close> it waits on the condition while
  \<open>message\<close> is set. \<open>g_cond_wait\<close> releases the mutex: the events of the other
  threads until the wait returns are the head of a schedule, one list of events for
  each wait. The result is the number of waits and the state when the handler
  returns; \<open>None\<close> when the schedule ends and the handler waits still.
\<close>

fun eos_wait :: "event list list \<Rightarrow> nat \<Rightarrow> GstSoupHttpSink \<Rightarrow> (nat \<times> GstSoupHttpSink) option" where
  "eos_wait [] waits s = (if message s \<noteq> None then None else Some (waits, s))"
| "eos_wait (others # schedule) waits s =
     (if message s \<noteq> None then eos_wait schedule (Suc waits) (run others s)
      else Some (waits, s))"

definition gst_soup_http_sink_event ::
    "GstEventType \<Rightarrow> event list list \<Rightarrow> GstSoupHttpSink \<Rightarrow> (nat \<times> GstSoupHttpSink) option" where
  "gst_soup_http_sink_event ev schedule s =
     (if ev = GST_EVENT_EOS then eos_wait schedule 0 s else Some (0, s))"

subsection \<open>Byte sequences and sample states\<close>

text \<open>
  The bytes of a list of buffers, and the bytes of those without
  \<open>GST_BUFFER_FLAG_IN_CAPS\<close>; the buffers a list of events gives to \<open>render\<close>.
\<close>

definition all_bytes :: "GstBuffer list \<Rightarrow> guint8 list" where
  "all_bytes g = concat (map data g)"

definition payload :: "GstBuffer list \<Rightarrow> guint8 list" where
  "payload g = concat (map data (filter (\<lambda>buffer. \<not> in_caps buffer) g))"


text \<open>Three buffers and an element with a location and one stream header.\<close>

definition sample_A :: GstBuffer where
  "sample_A = \<lparr>data = [1], in_caps = False\<rparr>"

definition sample_B :: GstBuffer where
  "sample_B = \<lparr>data = [2, 3], in_caps = False\<rparr>"

definition sample_H :: GstBuffer where
  "sample_H = \<lparr>data = [7, 8], in_caps = True\<rparr>"

definition sample_start :: GstSoupHttpSink where
  "sample_start =
     gst_soup_http_sink_set_caps (Some [sample_H])
       (gst_soup_http_sink_set_property (PROP_LOCATION (Some ''http://server/file''))
          gst_soup_http_sink_init)"

definition sample_sent_A :: GstSoupHttpSink where
  "sample_sent_A = run [Render sample_A, Idle, Completed 200 (Some ''OK'')] sample_start"

definition sample_latched :: GstSoupHttpSink where
  "sample_latched =
     run [Render sample_A, Idle, Completed 500 (Some ''Internal Server Error'')] sample_start"

definition sample_busy :: GstSoupHttpSink where
  "sample_busy =
     run [Set_property (PROP_LOCATION (Some ''http://server/file'')),
          Render sample_A, Idle, Render sample_B, Idle] gst_soup_http_sink_init"

subsection \<open>Kinds of events\<close>

text \<open>
  The events that leave a latched error as it is: all but a failed completion and
  \<open>stop\<close>. The events that set the offset to 0: a new location and \<open>stop\<close>. The
  messages an event hands to the session.
\<close>

fun keeps_latch :: "event \<Rightarrow> bool" where
  "keeps_latch (Completed msg_status msg_reason) = SOUP_STATUS_IS_SUCCESSFUL msg_status"
| "keeps_latch Stop = False"
| "keeps_latch e = True"

fun resets_offset :: "event \<Rightarrow> bool" where
  "resets_offset (Set_property (PROP_LOCATION v)) = True"
| "resets_offset Stop = True"
| "resets_offset e = False"

definition handed_by :: "event \<Rightarrow> GstSoupHttpSink \<Rightarrow> SoupMessage list" where
  "handed_by e s = drop (length (handed s)) (handed (step e s))"

subsection \<open>Uploads without failure\<close>







subsection \<open>Invariants\<close>



definition single_flight :: "GstSoupHttpSink \<Rightarrow> bool" where
  "single_flight s \<longleftrightarrow> session s = [] \<or> map Some (session s) = [message s]"

section \<open>Properties\<close>

subsection \<open>The functions in closed form\<close>

lemmas sample_defs =
  sample_A_def sample_B_def sample_H_def sample_start_def sample_sent_A_def sample_latched_def
  sample_busy_def

lemmas sink_defs =
  gst_soup_http_sink_init_def gst_soup_http_sink_reset_def gst_soup_http_sink_render_def
  gst_soup_http_sink_start_def gst_soup_http_sink_stop_def send_message_def
  send_message_locked_def build_message_def
  soup_message_new_def soup_message_body_append_def soup_message_headers_append_def
  gst_buffer_unref_def GST_BUFFER_SIZE_def callback_def SOUP_STATUS_IS_SUCCESSFUL_def
  content_range_def decimal.simps digit_def

lemma free_buffer_list_eq: "free_buffer_list g s = s\<lparr>unreffed := unreffed s @ g\<rparr>"
  by (induction g arbitrary: s) (simp_all add: gst_buffer_unref_def)

lemma append_streamheaders_eq:
  "append_streamheaders g (msg, n) =
     (msg\<lparr>request_body := request_body msg @ all_bytes g\<rparr>,
      n + of_nat (length (all_bytes g)))"
  by (induction g arbitrary: msg n)
     (simp_all add: all_bytes_def soup_message_body_append_def GST_BUFFER_SIZE_def
        algebra_simps)

lemma append_queued_eq:
  "append_queued g (msg, n) =
     (msg\<lparr>request_body := request_body msg @ payload g\<rparr>,
      n + of_nat (length (payload g)))"
  by (induction g arbitrary: msg n)
     (simp_all add: payload_def soup_message_body_append_def GST_BUFFER_SIZE_def
        algebra_simps)

text \<open>The message that dispatch builds in state \<open>s\<close>, and its \<open>n\<close>.\<close>

lemma build_message_eq:
  "build_message loc s =
     (\<lparr>http_method = ''PUT'', uri = loc,
       request_body =
         (if offset s = 0 then all_bytes (streamheader_buffers s) else [])
           @ payload (queued_buffers s),
       request_headers =
         (if offset s = 0 then []
          else [(''Content-Range'',
                 content_range (offset s)
                   (of_nat (length ((if offset s = 0 then all_bytes (streamheader_buffers s)
                                     else []) @ payload (queued_buffers s)))))])\<rparr>,
      of_nat (length ((if offset s = 0 then all_bytes (streamheader_buffers s) else [])
                        @ payload (queued_buffers s))))"
  by (simp add: build_message_def append_streamheaders_eq append_queued_eq
      soup_message_new_def soup_message_headers_append_def)


lemma build_message_n:
  "snd (build_message loc s) = of_nat (length (request_body (fst (build_message loc s))))"
  by (simp add: build_message_eq)

lemma build_message_headers:
  "request_headers (fst (build_message loc s)) =
     (if offset s = 0 then []
      else [(''Content-Range'', content_range (offset s) (snd (build_message loc s)))])"
  by (simp add: build_message_eq)

lemma send_message_locked_eq:
  "send_message_locked s =
     (if queued_buffers s = [] \<or> message s \<noteq> None then s
      else case location s of
        None \<Rightarrow> s\<lparr>queued_buffers := [], unreffed := unreffed s @ queued_buffers s\<rparr>
      | Some loc \<Rightarrow>
          if snd (build_message loc s) = 0
          then s\<lparr>queued_buffers := [], unreffed := unreffed s @ queued_buffers s\<rparr>
          else s\<lparr>message := Some (fst (build_message loc s)),
                 sent_buffers := queued_buffers s,
                 queued_buffers := [],
                 session := session s @ [fst (build_message loc s)],
                 handed := handed s @ [fst (build_message loc s)],
                 offset := offset s + snd (build_message loc s)\<rparr>)"
  by (auto simp: send_message_locked_def free_buffer_list_eq split: option.splits prod.splits)

lemma render_eq:
  "gst_soup_http_sink_render buffer s =
     (if status_code s \<noteq> 0
      then (GST_FLOW_ERROR, s\<lparr>posted := posted s @ [(status_code s, reason_phrase s)]\<rparr>)
      else (GST_FLOW_OK,
        case location s of
          None \<Rightarrow> s
        | Some loc \<Rightarrow>
            s\<lparr>queued_buffers := queued_buffers s @ [buffer],
              idle_sources :=
                (if queued_buffers s = [] then Suc (idle_sources s) else idle_sources s)\<rparr>))"
  by (simp add: gst_soup_http_sink_render_def Let_def split: option.splits)

lemma callback_eq:
  "callback msg_status msg_reason s =
     (if \<not> SOUP_STATUS_IS_SUCCESSFUL msg_status
      then s\<lparr>cond_signals := Suc (cond_signals s), message := None,
             status_code := msg_status, reason_phrase := msg_reason\<rparr>
      else send_message_locked
             (s\<lparr>cond_signals := Suc (cond_signals s), message := None,
                unreffed := unreffed s @ sent_buffers s, sent_buffers := []\<rparr>))"
  by (simp add: callback_def Let_def free_buffer_list_eq)


subsection \<open>Lost target\<close>

text \<open>
  Claim C8. When \<open>send_message_locked\<close> runs with a non-empty queue, no message in
  flight and no location, it gives every queued buffer to \<open>gst_buffer_unref\<close>, empties
  the queue and changes nothing else: no message is handed to the session.
\<close>

theorem lost_target_discard:
  "queued_buffers s \<noteq> [] \<Longrightarrow> message s = None \<Longrightarrow> location s = None \<Longrightarrow>
   send_message_locked s =
     s\<lparr>queued_buffers := [], unreffed := unreffed s @ queued_buffers s\<rparr>"
  by (simp add: send_message_locked_eq)

theorem lost_target_discard_witness:
  "queued_buffers
     (run [Render sample_A, Render sample_B, Set_property (PROP_LOCATION None)] sample_start)
     = [sample_A, sample_B] \<and>
   send_message_locked
     (run [Render sample_A, Render sample_B, Set_property (PROP_LOCATION None)] sample_start)
     = (run [Render sample_A, Render sample_B, Set_property (PROP_LOCATION None)] sample_start)
         \<lparr>queued_buffers := [], unreffed := [sample_A, sample_B]\<rparr>"
  using lost_target_discard
    [of "run [Render sample_A, Render sample_B, Set_property (PROP_LOCATION None)] sample_start"]
  by (simp add: sample_start_def gst_soup_http_sink_init_def gst_soup_http_sink_reset_def
      gst_soup_http_sink_render_def)

subsection \<open>Render without a location\<close>

text \<open>
  Claim C10. With no error latched and no location, \<open>render\<close> returns \<open>GST_FLOW_OK\<close>
  and leaves the element as it was: the buffer is not queued and no idle source is
  attached.
\<close>

theorem render_without_location:
  "status_code s = 0 \<Longrightarrow> location s = None \<Longrightarrow>
   gst_soup_http_sink_render buffer s = (GST_FLOW_OK, s)"
  by (simp add: gst_soup_http_sink_render_def)

theorem render_without_location_witness:
  "status_code gst_soup_http_sink_init = 0 \<and> location gst_soup_http_sink_init = None \<and>
   gst_soup_http_sink_render sample_A gst_soup_http_sink_init
     = (GST_FLOW_OK, gst_soup_http_sink_init) \<and>
   queued_buffers (step (Render sample_A) gst_soup_http_sink_init) = [] \<and>
   idle_sources (step (Render sample_A) gst_soup_http_sink_init) = 0"
  using render_without_location [of gst_soup_http_sink_init sample_A]
  by (simp add: gst_soup_http_sink_init_def gst_soup_http_sink_reset_def)

subsection \<open>Stop\<close>

text \<open>
  Claim C9, as the code has it. \<open>stop\<close> sets the offset to 0 and clears the latched
  status code and reason phrase. It hands no message to the session, and it leaves the
  queued buffers, the stream headers and the sent buffers as they were: none of them is
  given to \<open>gst_buffer_unref\<close>.
\<close>

theorem stop_resets_offset_and_latch:
  "offset (gst_soup_http_sink_stop s) = 0 \<and>
   status_code (gst_soup_http_sink_stop s) = 0 \<and>
   reason_phrase (gst_soup_http_sink_stop s) = None \<and>
   handed (gst_soup_http_sink_stop s) = handed s \<and>
   queued_buffers (gst_soup_http_sink_stop s) = queued_buffers s \<and>
   streamheader_buffers (gst_soup_http_sink_stop s) = streamheader_buffers s \<and>
   sent_buffers (gst_soup_http_sink_stop s) = sent_buffers s \<and>
   unreffed (gst_soup_http_sink_stop s) = unreffed s"
  by (simp add: gst_soup_http_sink_stop_def gst_soup_http_sink_reset_def)

text \<open>
  The claim as written fails: after \<open>stop\<close> with one buffer queued and one stream
  header, both lists are as before and no buffer has been unreffed.
\<close>

theorem stop_keeps_buffers_counterexample:
  "queued_buffers (gst_soup_http_sink_stop (run [Render sample_A] sample_start)) = [sample_A] \<and>
   streamheader_buffers (gst_soup_http_sink_stop (run [Render sample_A] sample_start)) = [sample_H] \<and>
   unreffed (gst_soup_http_sink_stop (run [Render sample_A] sample_start)) = []"
  by (simp add: sample_start_def sink_defs)


subsection \<open>Content-Range\<close>

lemma unat_last_byte:
  assumes "(of_nat L :: guint64) \<noteq> 0" and "unat (off :: guint64) + L \<le> 2 ^ 64" and "off \<noteq> 0"
  shows "unat (off + of_nat L - 1) = unat off + L - 1"
proof (rule of_nat_inverse)
  have L: "0 < L" using assms(1) by (cases L) auto
  then have "(of_nat (unat off + L - 1) :: guint64) = of_nat (unat off + L) - of_nat 1"
    by (intro of_nat_diff) simp
  then show "(of_nat (unat off + L - 1) :: guint64) = off + of_nat L - 1"
    by simp
  have "0 < unat off" using assms(3) by (simp add: unat_gt_0)
  then show "unat off + L - 1 < 2 ^ LENGTH(64)" using assms(2) by simp
qed

text \<open>
  Claim C6. A message that \<open>send_message_locked\<close> hands to the session has no request
  header when it was built at offset 0, and exactly the header
  \<open>Content-Range: bytes offset-(offset+n-1)/*\<close> otherwise, \<open>n\<close> being the length of its
  body (computed in 64 bits; it is the integer \<open>offset + n - 1\<close> when the end of the
  body lies within 64 bits); its \<open>n\<close> is not 0. When \<open>n\<close> is 0 no message is handed
  over: the queued buffers are unreffed and the queue is emptied.
\<close>

theorem dispatched_request_content_range:
  "(handed (send_message_locked s) = handed s @ [msg] \<longrightarrow>
      (offset s = 0 \<longrightarrow> request_headers msg = []) \<and>
      (offset s \<noteq> 0 \<longrightarrow>
         request_headers msg =
           [(''Content-Range'',
             ''bytes '' @ decimal (unat (offset s)) @ ''-''
               @ decimal (unat (offset s + of_nat (length (request_body msg)) - 1)) @ ''/*'')] \<and>
         (unat (offset s) + length (request_body msg) \<le> 2 ^ 64 \<longrightarrow>
            unat (offset s + of_nat (length (request_body msg)) - 1)
              = unat (offset s) + length (request_body msg) - 1)) \<and>
      (of_nat (length (request_body msg)) :: guint64) \<noteq> 0 \<and> request_body msg \<noteq> []) \<and>
   (queued_buffers s \<noteq> [] \<and> message s = None \<and> location s = Some loc \<and>
    snd (build_message loc s) = 0 \<longrightarrow>
      send_message_locked s =
        s\<lparr>queued_buffers := [], unreffed := unreffed s @ queued_buffers s\<rparr>)"
proof (intro conjI impI)
  assume "queued_buffers s \<noteq> [] \<and> message s = None \<and> location s = Some loc \<and>
    snd (build_message loc s) = 0"
  then show "send_message_locked s =
        s\<lparr>queued_buffers := [], unreffed := unreffed s @ queued_buffers s\<rparr>"
    by (simp add: send_message_locked_eq)
next
  assume h: "handed (send_message_locked s) = handed s @ [msg]"
  then obtain loc' where
    m: "msg = fst (build_message loc' s)" and n: "snd (build_message loc' s) \<noteq> 0"
    by (auto simp: send_message_locked_eq split: if_splits option.splits)
  have nz: "(of_nat (length (request_body msg)) :: guint64) \<noteq> 0"
    using n m by (simp add: build_message_n)
  show "(of_nat (length (request_body msg)) :: guint64) \<noteq> 0" by (rule nz)
  show "request_body msg \<noteq> []" using nz by auto
  { assume "offset s = 0"
    then show "request_headers msg = []" by (simp add: m build_message_headers) }
  { assume z: "offset s \<noteq> 0"
    then show "request_headers msg =
           [(''Content-Range'',
             ''bytes '' @ decimal (unat (offset s)) @ ''-''
               @ decimal (unat (offset s + of_nat (length (request_body msg)) - 1)) @ ''/*'')]"
      by (simp add: m build_message_headers build_message_n content_range_def)
    assume "unat (offset s) + length (request_body msg) \<le> 2 ^ 64"
    then show "unat (offset s + of_nat (length (request_body msg)) - 1)
              = unat (offset s) + length (request_body msg) - 1"
      by (rule unat_last_byte [OF nz _ z]) }
qed

theorem dispatched_request_content_range_witness:
  "offset (step (Render sample_A) sample_start) = 0 \<and>
   handed (send_message_locked (step (Render sample_A) sample_start)) =
     [\<lparr>http_method = ''PUT'', uri = ''http://server/file'', request_body = [7, 8, 1],
       request_headers = []\<rparr>] \<and>
   offset (step (Render sample_B) sample_sent_A) = 3 \<and>
   handed (send_message_locked (step (Render sample_B) sample_sent_A)) =
     handed (step (Render sample_B) sample_sent_A) @
     [\<lparr>http_method = ''PUT'', uri = ''http://server/file'', request_body = [2, 3],
       request_headers = [(''Content-Range'', ''bytes 3-4/*'')]\<rparr>] \<and>
   snd (build_message ''http://server/file'' (step (Render sample_H) sample_sent_A)) = 0 \<and>
   send_message_locked (step (Render sample_H) sample_sent_A) =
     (step (Render sample_H) sample_sent_A)
       \<lparr>queued_buffers := [], unreffed := [sample_A, sample_H]\<rparr>"
  using dispatched_request_content_range
      [of "step (Render sample_A) sample_start"
          "\<lparr>http_method = ''PUT'', uri = ''http://server/file'', request_body = [7, 8, 1],
            request_headers = []\<rparr>" "''http://server/file''"]
    dispatched_request_content_range
      [of "step (Render sample_B) sample_sent_A"
          "\<lparr>http_method = ''PUT'', uri = ''http://server/file'', request_body = [2, 3],
            request_headers = [(''Content-Range'', ''bytes 3-4/*'')]\<rparr>"
          "''http://server/file''"]
    dispatched_request_content_range
      [of "step (Render sample_H) sample_sent_A" undefined "''http://server/file''"]
  by (simp add: sample_defs sink_defs)


subsection \<open>The latch at render\<close>

lemma send_message_locked_latch:
  "status_code (send_message_locked s) = status_code s \<and>
   reason_phrase (send_message_locked s) = reason_phrase s"
  by (simp add: send_message_locked_eq split: option.splits)

lemma step_keeps_latch:
  "status_code s \<noteq> 0 \<Longrightarrow> keeps_latch e \<Longrightarrow>
   status_code (step e s) = status_code s \<and> reason_phrase (step e s) = reason_phrase s"
  apply (cases e)
  apply (simp_all add: gst_soup_http_sink_render_def send_message_def send_message_locked_latch
      callback_def free_buffer_list_eq gst_soup_http_sink_start_def split: list.splits)
  subgoal for v by (cases v) (simp_all add: free_buffer_list_eq)
  subgoal for p by (cases p) simp_all
  done

lemma run_keeps_latch:
  "status_code s \<noteq> 0 \<Longrightarrow> list_all keeps_latch evs \<Longrightarrow>
   status_code (run evs s) = status_code s \<and> reason_phrase (run evs s) = reason_phrase s"
proof (induction evs arbitrary: s)
  case Nil
  then show ?case by simp
next
  case (Cons e es)
  have "status_code (step e s) = status_code s \<and> reason_phrase (step e s) = reason_phrase s"
    using Cons.prems by (simp add: step_keeps_latch)
  then show ?case using Cons.IH [of "step e s"] Cons.prems by simp
qed

text \<open>
  What holds of \<open>render\<close> once an error is latched: after any events that are neither
  a further failed completion nor \<open>stop\<close> (any number of calls of \<open>render\<close> among
  them), the status code and reason phrase are the latched ones, and \<open>render\<close> returns
  \<open>GST_FLOW_ERROR\<close>, posts an error with that status code and reason, and changes
  nothing else: the buffer is not queued, no idle source is attached and no message is
  handed to the session.
\<close>

theorem latched_render_fails:
  assumes "status_code s \<noteq> 0" and "list_all keeps_latch evs"
  shows "status_code (run evs s) = status_code s \<and>
         reason_phrase (run evs s) = reason_phrase s \<and>
         gst_soup_http_sink_render buffer (run evs s) =
           (GST_FLOW_ERROR,
            (run evs s)\<lparr>posted := posted (run evs s) @ [(status_code s, reason_phrase s)]\<rparr>)"
  using run_keeps_latch [OF assms] assms(1) by (simp add: gst_soup_http_sink_render_def)

theorem latched_render_fails_witness:
  "status_code sample_latched = 500 \<and>
   list_all keeps_latch [Render sample_B, Idle, Render sample_A] \<and>
   gst_soup_http_sink_render sample_B
       (run [Render sample_B, Idle, Render sample_A] sample_latched) =
     (GST_FLOW_ERROR,
      (run [Render sample_B, Idle, Render sample_A] sample_latched)
        \<lparr>posted := [(500, Some ''Internal Server Error''),
                    (500, Some ''Internal Server Error''),
                    (500, Some ''Internal Server Error'')]\<rparr>) \<and>
   queued_buffers (run [Render sample_B, Idle, Render sample_A] sample_latched) = [] \<and>
   handed (run [Render sample_B, Idle, Render sample_A] sample_latched) =
     handed sample_latched"
  using latched_render_fails
      [of sample_latched "[Render sample_B, Idle, Render sample_A]" sample_B]
  by (simp add: sample_defs sink_defs)


text \<open>
  Claim C7 fails on the code. A first message fails with status 500 while a second
  buffer is queued and its idle source is attached; \<open>render\<close> then fails and posts
  status 500. The idle source runs and hands over a second message (the dispatch after
  the latch), which fails with status 404; \<open>callback\<close> writes that status and reason
  over the latched ones, and the next \<open>render\<close> posts 404 \<open>Not Found\<close>, not the
  latched 500.
\<close>

theorem latch_overwritten_after_dispatch:
  "status_code
     (run [Render sample_A, Idle, Render sample_B,
           Completed 500 (Some ''Internal Server Error'')] sample_start) = 500 \<and>
   reason_phrase
     (run [Render sample_A, Idle, Render sample_B,
           Completed 500 (Some ''Internal Server Error'')] sample_start)
     = Some ''Internal Server Error'' \<and>
   gst_soup_http_sink_render sample_A
     (run [Render sample_A, Idle, Render sample_B,
           Completed 500 (Some ''Internal Server Error''),
           Render sample_A, Idle, Completed 404 (Some ''Not Found'')] sample_start)
     = (GST_FLOW_ERROR,
        (run [Render sample_A, Idle, Render sample_B,
              Completed 500 (Some ''Internal Server Error''),
              Render sample_A, Idle, Completed 404 (Some ''Not Found'')] sample_start)
          \<lparr>posted := [(500, Some ''Internal Server Error''), (404, Some ''Not Found'')]\<rparr>)"
  by (simp add: sample_defs sink_defs)

subsection \<open>The offset\<close>

lemma send_message_locked_offset:
  "offset (send_message_locked s) =
     offset s + of_nat (length (concat (map request_body
        (drop (length (handed s)) (handed (send_message_locked s))))))"
  by (simp add: send_message_locked_eq build_message_n split: option.splits)

lemma send_message_locked_hands_one:
  "length (drop (length (handed s)) (handed (send_message_locked s))) \<le> 1"
  by (simp add: send_message_locked_eq split: option.splits)

lemma step_offset:
  "offset (step e s) =
     (if resets_offset e then 0
      else offset s + of_nat (length (concat (map request_body (handed_by e s)))))"
proof (cases e)
  case (Render buffer)
  then show ?thesis
    by (simp add: handed_by_def render_eq split: option.splits)
next
  case Idle
  then show ?thesis
    using send_message_locked_offset [of "s\<lparr>idle_sources := idle_sources s - 1\<rparr>"]
    by (simp add: handed_by_def send_message_def)
next
  case (Completed msg_status msg_reason)
  show ?thesis
  proof (cases "session s")
    case Nil
    then show ?thesis using Completed by (simp add: handed_by_def)
  next
    case (Cons msg rest)
    show ?thesis
    proof (cases "SOUP_STATUS_IS_SUCCESSFUL msg_status")
      case True
      then show ?thesis
        using Completed Cons
          send_message_locked_offset
            [of "s\<lparr>session := rest, cond_signals := Suc (cond_signals s), message := None,
                   unreffed := unreffed s @ sent_buffers s, sent_buffers := []\<rparr>"]
        by (simp add: handed_by_def callback_eq)
    next
      case False
      then show ?thesis using Completed Cons by (simp add: handed_by_def callback_eq)
    qed
  qed
next
  case (Set_caps v)
  then show ?thesis by (cases v) (simp_all add: handed_by_def free_buffer_list_eq)
next
  case (Set_property p)
  then show ?thesis by (cases p) (simp_all add: handed_by_def)
next
  case Start
  then show ?thesis by (simp add: handed_by_def gst_soup_http_sink_start_def)
next
  case Stop
  then show ?thesis
    by (simp add: handed_by_def gst_soup_http_sink_stop_def gst_soup_http_sink_reset_def)
qed

lemma step_hands_at_most_one: "length (handed_by e s) \<le> 1"
proof (cases e)
  case (Render buffer)
  then show ?thesis by (simp add: handed_by_def render_eq split: option.splits)
next
  case Idle
  then show ?thesis
    using send_message_locked_hands_one [of "s\<lparr>idle_sources := idle_sources s - 1\<rparr>"]
    by (simp add: handed_by_def send_message_def)
next
  case (Completed msg_status msg_reason)
  show ?thesis
  proof (cases "session s")
    case Nil
    then show ?thesis using Completed by (simp add: handed_by_def)
  next
    case (Cons msg rest)
    then show ?thesis
      using Completed
        send_message_locked_hands_one
          [of "s\<lparr>session := rest, cond_signals := Suc (cond_signals s), message := None,
                 unreffed := unreffed s @ sent_buffers s, sent_buffers := []\<rparr>"]
      by (simp add: handed_by_def callback_eq)
  qed
next
  case (Set_caps v)
  then show ?thesis by (cases v) (simp_all add: handed_by_def free_buffer_list_eq)
next
  case (Set_property p)
  then show ?thesis by (cases p) (simp_all add: handed_by_def)
next
  case Start
  then show ?thesis by (simp add: handed_by_def gst_soup_http_sink_start_def)
next
  case Stop
  then show ?thesis
    by (simp add: handed_by_def gst_soup_http_sink_stop_def gst_soup_http_sink_reset_def)
qed

lemma word_le_add_of_nat:
  assumes "unat (x :: guint64) + L < 2 ^ 64"
  shows "x \<le> x + of_nat L"
proof -
  have "unat (of_nat L :: guint64) \<le> L" by (simp add: unat_of_nat)
  then have "unat x + unat (of_nat L :: guint64) < 2 ^ size x"
    using assms by (simp add: word_size)
  then show ?thesis by (simp only: no_plus_overflow_unat_size)
qed

text \<open>
  Claim C3, as the code has it. The offset is a 64-bit counter. A step changes it only
  by handing a message to the session, and then adds the length of that message's body
  (modulo \<open>2^64\<close>), at the moment the message is handed over and before it completes;
  a completion, successful or not, changes it only through the message it hands over
  next. A new location and \<open>stop\<close> set it to 0. It does not decrease as long as the
  sum stays below \<open>2^64\<close>.
\<close>

theorem offset_advances_at_dispatch:
  "offset (step e s) =
     (if resets_offset e then 0
      else offset s + of_nat (length (concat (map request_body (handed_by e s))))) \<and>
   length (handed_by e s) \<le> 1 \<and>
   (\<not> resets_offset e \<and>
    unat (offset s) + length (concat (map request_body (handed_by e s))) < 2 ^ 64 \<longrightarrow>
      offset s \<le> offset (step e s))"
  using step_offset [of e s] step_hands_at_most_one [of e s]
  by (auto intro: word_le_add_of_nat)

theorem offset_advances_at_dispatch_witness:
  "handed_by Idle (step (Render sample_A) sample_start) =
     [\<lparr>http_method = ''PUT'', uri = ''http://server/file'', request_body = [7, 8, 1],
       request_headers = []\<rparr>] \<and>
   offset (step (Render sample_A) sample_start) = 0 \<and>
   offset (step Idle (step (Render sample_A) sample_start)) = 3 \<and>
   offset (step (Render sample_A) sample_start)
     \<le> offset (step Idle (step (Render sample_A) sample_start))"
  using offset_advances_at_dispatch [of Idle "step (Render sample_A) sample_start"]
  by (simp add: handed_by_def sample_defs sink_defs)

text \<open>
  The claim as written fails: the offset goes from 0 to 3 when the first message is
  handed to the session, with the message still in the session; its successful
  completion leaves the offset at 3, and so does its failed completion.
\<close>

theorem offset_advance_counterexample:
  "offset (run [Render sample_A] sample_start) = 0 \<and>
   offset (run [Render sample_A, Idle] sample_start) = 3 \<and>
   session (run [Render sample_A, Idle] sample_start) \<noteq> [] \<and>
   offset (run [Render sample_A, Idle, Completed 200 (Some ''OK'')] sample_start) = 3 \<and>
   offset (run [Render sample_A, Idle, Completed 500 (Some ''Internal Server Error'')]
             sample_start) = 3"
  by (simp add: sample_defs sink_defs)

subsection \<open>End of stream\<close>

lemma eos_wait_Some:
  "eos_wait schedule waits s = Some (waits', s') \<Longrightarrow> message s' = None"
  by (induction schedule arbitrary: waits s) (auto split: if_splits)

text \<open>
  Claim C5, as the code has it. When the handler of \<open>GST_EVENT_EOS\<close> returns, no
  message is in flight. When no message is in flight at the call it returns at once,
  with no wait and the state unchanged, whatever the queue holds. While a message is
  in flight it does not return, and it returns after the first wait at whose end no
  message is in flight.
\<close>

theorem eos_returns_when_no_message:
  "(gst_soup_http_sink_event GST_EVENT_EOS schedule s = Some (waits, s') \<longrightarrow>
      message s' = None) \<and>
   (message s = None \<longrightarrow>
      gst_soup_http_sink_event GST_EVENT_EOS schedule s = Some (0, s)) \<and>
   (message s \<noteq> None \<longrightarrow> gst_soup_http_sink_event GST_EVENT_EOS [] s = None) \<and>
   (message s \<noteq> None \<and> message (run others s) = None \<longrightarrow>
      gst_soup_http_sink_event GST_EVENT_EOS (others # schedule) s
        = Some (1, run others s))"
  by (cases schedule) (auto simp: gst_soup_http_sink_event_def dest: eos_wait_Some)

theorem eos_returns_when_no_message_witness:
  "gst_soup_http_sink_event GST_EVENT_EOS [[Completed 200 (Some ''OK'')]]
       (run [Render sample_A, Idle] sample_start)
     = Some (1, sample_sent_A) \<and>
   message (run [Render sample_A, Idle] sample_start) \<noteq> None \<and>
   message sample_sent_A = None \<and>
   queued_buffers sample_sent_A = [] \<and>
   gst_soup_http_sink_event GST_EVENT_EOS [[Completed 200 (Some ''OK'')]] sample_sent_A
     = Some (0, sample_sent_A)"
  using eos_returns_when_no_message
      [of "[]" "run [Render sample_A, Idle] sample_start" 1 sample_sent_A
          "[Completed 200 (Some ''OK'')]"]
    eos_returns_when_no_message
      [of "[[Completed 200 (Some ''OK'')]]" sample_sent_A 0 sample_sent_A "[]"]
  by (simp add: sample_defs sink_defs)

text \<open>
  The claim as written fails: with one buffer queued and its idle source not yet run,
  the handler returns without waiting and the queue still holds the buffer.
\<close>

theorem eos_returns_with_queue_counterexample:
  "gst_soup_http_sink_event GST_EVENT_EOS [[Idle]] (run [Render sample_A] sample_start)
     = Some (0, run [Render sample_A] sample_start) \<and>
   queued_buffers (run [Render sample_A] sample_start) = [sample_A]"
  by (simp add: gst_soup_http_sink_event_def sample_defs sink_defs)

subsection \<open>Dispatch after a failure\<close>

text \<open>
  Claim C4 fails on the code. A buffer is sent; a second buffer is queued while the
  first message is in flight, which attaches an idle source; the first message fails
  with status 500, which latches the error; the idle source then runs and
  \<open>send_message_locked\<close>, which does not test \<open>status_code\<close>, hands a second message
  to the session.
\<close>

theorem dispatch_after_latch:
  "status_code
     (run [Render sample_A, Idle, Render sample_B,
           Completed 500 (Some ''Internal Server Error'')] sample_start) = 500 \<and>
   idle_sources
     (run [Render sample_A, Idle, Render sample_B,
           Completed 500 (Some ''Internal Server Error'')] sample_start) = 1 \<and>
   handed
     (run [Render sample_A, Idle, Render sample_B,
           Completed 500 (Some ''Internal Server Error'')] sample_start) =
     [\<lparr>http_method = ''PUT'', uri = ''http://server/file'', request_body = [7, 8, 1],
       request_headers = []\<rparr>] \<and>
   handed
     (run [Render sample_A, Idle, Render sample_B,
           Completed 500 (Some ''Internal Server Error''), Idle] sample_start) =
     [\<lparr>http_method = ''PUT'', uri = ''http://server/file'', request_body = [7, 8, 1],
       request_headers = []\<rparr>,
      \<lparr>http_method = ''PUT'', uri = ''http://server/file'', request_body = [2, 3],
       request_headers = [(''Content-Range'', ''bytes 3-4/*'')]\<rparr>]"
  by (simp add: sample_defs sink_defs)


subsection \<open>Ordering\<close>
























subsection \<open>Single flight\<close>

lemma single_flight_frame:
  "single_flight (s\<lparr>idle_sources := i\<rparr>) = single_flight s"
  "single_flight (s\<lparr>queued_buffers := q\<rparr>) = single_flight s"
  "single_flight (s\<lparr>posted := p\<rparr>) = single_flight s"
  "single_flight (s\<lparr>unreffed := u\<rparr>) = single_flight s"
  "single_flight (s\<lparr>streamheader_buffers := h\<rparr>) = single_flight s"
  "single_flight (s\<lparr>prop_session := b\<rparr>) = single_flight s"
  "single_flight (s\<lparr>location := l\<rparr>) = single_flight s"
  "single_flight (s\<lparr>offset := off\<rparr>) = single_flight s"
  by (simp_all add: single_flight_def)

lemma send_message_locked_single_flight:
  "single_flight s \<Longrightarrow> single_flight (send_message_locked s)"
  by (auto simp: send_message_locked_eq single_flight_def split: option.splits list.splits)

lemma step_single_flight: "single_flight s \<Longrightarrow> single_flight (step e s)"
proof (cases e)
  case (Render buffer)
  assume "single_flight s"
  then show ?thesis
    using Render by (simp add: render_eq single_flight_frame split: option.splits)
next
  case Idle
  assume "single_flight s"
  then show ?thesis
    using Idle
    by (simp add: send_message_def send_message_locked_single_flight single_flight_frame)
next
  case (Completed msg_status msg_reason)
  assume sf: "single_flight s"
  show ?thesis
  proof (cases "session s")
    case Nil
    then show ?thesis using Completed sf by simp
  next
    case (Cons msg rest)
    then have rest: "rest = []" using sf by (auto simp: single_flight_def)
    have cleared: "single_flight
        (s\<lparr>session := rest, cond_signals := Suc (cond_signals s), message := None,
           unreffed := unreffed s @ sent_buffers s, sent_buffers := []\<rparr>)"
      by (simp add: single_flight_def rest)
    show ?thesis
    proof (cases "SOUP_STATUS_IS_SUCCESSFUL msg_status")
      case True
      then show ?thesis
        using Completed Cons send_message_locked_single_flight [OF cleared]
        by (simp add: callback_eq)
    next
      case False
      then show ?thesis
        using Completed Cons rest by (simp add: callback_eq single_flight_def)
    qed
  qed
next
  case (Set_caps v)
  assume "single_flight s"
  then show ?thesis
    using Set_caps by (cases v) (simp_all add: free_buffer_list_eq single_flight_frame)
next
  case (Set_property p)
  assume "single_flight s"
  then show ?thesis using Set_property by (cases p) (simp_all add: single_flight_frame)
next
  case Start
  assume "single_flight s"
  then show ?thesis using Start by (simp add: gst_soup_http_sink_start_def)
next
  case Stop
  assume "single_flight s"
  then show ?thesis
    using Stop
    by (simp add: gst_soup_http_sink_stop_def gst_soup_http_sink_reset_def single_flight_def)
qed

lemma run_single_flight: "single_flight s \<Longrightarrow> single_flight (run evs s)"
  by (induction evs arbitrary: s) (simp_all add: step_single_flight)

text \<open>
  Claim C2. In every state a run reaches from \<open>gst_soup_http_sink_init\<close> the session
  holds at most one message, and when it holds one the element's \<open>message\<close> is set.
  \<open>send_message_locked\<close> does nothing when \<open>message\<close> is set. \<open>callback\<close> clears
  \<open>message\<close> first: on success it dispatches from the state with \<open>message\<close> cleared,
  on failure it leaves \<open>message\<close> cleared and hands nothing over.
\<close>

theorem at_most_one_in_flight:
  "length (session (run evs gst_soup_http_sink_init)) \<le> 1 \<and>
   (session (run evs gst_soup_http_sink_init) \<noteq> [] \<longrightarrow>
      message (run evs gst_soup_http_sink_init) \<noteq> None) \<and>
   (message s \<noteq> None \<longrightarrow> send_message_locked s = s) \<and>
   (SOUP_STATUS_IS_SUCCESSFUL msg_status \<longrightarrow>
      callback msg_status msg_reason s =
        send_message_locked
          (s\<lparr>cond_signals := Suc (cond_signals s), message := None,
             unreffed := unreffed s @ sent_buffers s, sent_buffers := []\<rparr>)) \<and>
   (\<not> SOUP_STATUS_IS_SUCCESSFUL msg_status \<longrightarrow>
      message (callback msg_status msg_reason s) = None \<and>
      handed (callback msg_status msg_reason s) = handed s)"
proof -
  have "single_flight gst_soup_http_sink_init"
    by (simp add: single_flight_def gst_soup_http_sink_init_def gst_soup_http_sink_reset_def)
  then have "single_flight (run evs gst_soup_http_sink_init)"
    by (rule run_single_flight)
  then have "length (session (run evs gst_soup_http_sink_init)) \<le> 1"
    and "session (run evs gst_soup_http_sink_init) \<noteq> [] \<longrightarrow>
      message (run evs gst_soup_http_sink_init) \<noteq> None"
    by (auto simp: single_flight_def dest: sym)
  then show ?thesis
    by (simp add: send_message_locked_eq callback_eq)
qed

theorem at_most_one_in_flight_witness:
  "session sample_busy =
     [\<lparr>http_method = ''PUT'', uri = ''http://server/file'', request_body = [1],
       request_headers = []\<rparr>] \<and>
   message sample_busy =
     Some \<lparr>http_method = ''PUT'', uri = ''http://server/file'', request_body = [1],
          request_headers = []\<rparr> \<and>
   queued_buffers sample_busy = [sample_B] \<and>
   send_message_locked sample_busy = sample_busy \<and>
   SOUP_STATUS_IS_SUCCESSFUL 200 \<and>
   session (step (Completed 200 (Some ''OK'')) sample_busy) =
     [\<lparr>http_method = ''PUT'', uri = ''http://server/file'', request_body = [2, 3],
       request_headers = [(''Content-Range'', ''bytes 1-2/*'')]\<rparr>] \<and>
   \<not> SOUP_STATUS_IS_SUCCESSFUL 500 \<and>
   session (step (Completed 500 (Some ''Internal Server Error'')) sample_busy) = [] \<and>
   message (step (Completed 500 (Some ''Internal Server Error'')) sample_busy) = None"
  using at_most_one_in_flight
      [of "[Set_property (PROP_LOCATION (Some ''http://server/file'')),
            Render sample_A, Idle, Render sample_B, Idle]"
          sample_busy 200 "Some ''OK''"]
    at_most_one_in_flight
      [of "[Set_property (PROP_LOCATION (Some ''http://server/file'')),
            Render sample_A, Idle, Render sample_B, Idle, Completed 200 (Some ''OK'')]"
          sample_busy 500 "Some ''Internal Server Error''"]
  by (simp add: sample_defs sink_defs)

end
